theory Spec2Isabelle
  imports Complex_Main
begin

section \<open>Python floats\<close>

text \<open>
  The program is \<^verbatim>\<open>rocket.py\<close>: three classes (\<^verbatim>\<open>Rocket\<close>, \<^verbatim>\<open>Stage\<close>,
  \<^verbatim>\<open>Payload\<close>) whose numbers are Python floats, that is IEEE 754 binary64 values.

  A float is a finite number, one of the two infinities, or NaN. \<open>Finite x\<close> stands for
  the double whose value is the real number \<open>x\<close>. An arithmetic operation on two finite
  doubles is the operation on the real numbers followed by \<open>round64\<close>, the rounding to
  the nearest double with ties to the even significand, which gives an infinity when the
  result is out of range. Comparisons are evaluated as Python does (every comparison
  with NaN is false). The sign of zero is not modelled. \<^verbatim>\<open>np.sin\<close>, \<^verbatim>\<open>np.cos\<close> and
  \<^verbatim>\<open>np.arccos\<close> are taken to round their exact value correctly.
\<close>

datatype pyfloat = Finite real | PosInf | NegInf | NaN

text \<open>Rounding a real number to an integer, a tie going to the even neighbour.\<close>

definition round_half_even :: "real \<Rightarrow> int" where
  "round_half_even q =
     (let f = \<lfloor>q\<rfloor>
      in if q - of_int f < 1 / 2 then f
         else if 1 / 2 < q - of_int f then f + 1
         else if even f then f else f + 1)"

text \<open>
  The exponent of the unit in the last place of the doubles around \<open>x\<close>: a double has
  53 significant bits, and below \<open>2 powi (- 1022)\<close> the doubles are the multiples of
  \<open>2 powi (- 1074)\<close>.
\<close>

definition ulp_exponent :: "real \<Rightarrow> int" where
  "ulp_exponent x = (if \<bar>x\<bar> < 2 powi (- 1022) then - 1074 else \<lfloor>log 2 \<bar>x\<bar>\<rfloor> - 52)"

definition nearest64 :: "real \<Rightarrow> real" where
  "nearest64 x =
     (let u = 2 powi (ulp_exponent x) in of_int (round_half_even (x / u)) * u)"

text \<open>The least power of two that is out of the range of the doubles.\<close>

definition huge :: real where
  "huge = 2 powi 1024"

definition finite_or_inf :: "real \<Rightarrow> pyfloat" where
  "finite_or_inf y = (if huge \<le> y then PosInf else if y \<le> - huge then NegInf else Finite y)"

definition round64 :: "real \<Rightarrow> pyfloat" where
  "round64 x = finite_or_inf (nearest64 x)"



fun flt :: "pyfloat \<Rightarrow> pyfloat \<Rightarrow> bool" where
  "flt (Finite x) (Finite y) = (x < y)"
| "flt (Finite x) PosInf = True"
| "flt NegInf (Finite y) = True"
| "flt NegInf PosInf = True"
| "flt _ _ = False"

fun fle :: "pyfloat \<Rightarrow> pyfloat \<Rightarrow> bool" where
  "fle (Finite x) (Finite y) = (x \<le> y)"
| "fle (Finite x) PosInf = True"
| "fle NegInf (Finite y) = True"
| "fle NegInf PosInf = True"
| "fle NegInf NegInf = True"
| "fle PosInf PosInf = True"
| "fle _ _ = False"

definition fgt :: "pyfloat \<Rightarrow> pyfloat \<Rightarrow> bool" where
  "fgt a b = flt b a"

definition fge :: "pyfloat \<Rightarrow> pyfloat \<Rightarrow> bool" where
  "fge a b = fle b a"

fun fneg :: "pyfloat \<Rightarrow> pyfloat" where
  "fneg (Finite x) = Finite (- x)"
| "fneg PosInf = NegInf"
| "fneg NegInf = PosInf"
| "fneg NaN = NaN"

fun fadd :: "pyfloat \<Rightarrow> pyfloat \<Rightarrow> pyfloat" where
  "fadd (Finite x) (Finite y) = round64 (x + y)"
| "fadd NaN _ = NaN"
| "fadd _ NaN = NaN"
| "fadd PosInf NegInf = NaN"
| "fadd NegInf PosInf = NaN"
| "fadd PosInf _ = PosInf"
| "fadd _ PosInf = PosInf"
| "fadd NegInf _ = NegInf"
| "fadd _ NegInf = NegInf"

definition fsub :: "pyfloat \<Rightarrow> pyfloat \<Rightarrow> pyfloat" where
  "fsub a b = fadd a (fneg b)"

text \<open>The sign of an infinity times a finite factor; zero times an infinity is NaN.\<close>

definition signed_inf :: "real \<Rightarrow> pyfloat \<Rightarrow> pyfloat" where
  "signed_inf x i = (if x = 0 then NaN else if 0 < x then i else fneg i)"

fun fmul :: "pyfloat \<Rightarrow> pyfloat \<Rightarrow> pyfloat" where
  "fmul (Finite x) (Finite y) = round64 (x * y)"
| "fmul NaN _ = NaN"
| "fmul _ NaN = NaN"
| "fmul (Finite x) i = signed_inf x i"
| "fmul i (Finite y) = signed_inf y i"
| "fmul PosInf i = i"
| "fmul NegInf i = fneg i"

text \<open>
  Division of floats where the divisor is not zero. For a zero divisor the value is the
  IEEE one (as numpy computes it); Python's own operator raises there, see \<open>py_truediv\<close>.
\<close>

fun fdiv :: "pyfloat \<Rightarrow> pyfloat \<Rightarrow> pyfloat" where
  "fdiv (Finite x) (Finite y) = (if y = 0 then signed_inf x PosInf else round64 (x / y))"
| "fdiv NaN _ = NaN"
| "fdiv _ NaN = NaN"
| "fdiv (Finite x) _ = Finite 0"
| "fdiv i (Finite y) = (if 0 \<le> y then i else fneg i)"
| "fdiv _ _ = NaN"

datatype py_error = TypeError | ValueError | IndexError | ZeroDivisionError

definition py_truediv :: "pyfloat \<Rightarrow> pyfloat \<Rightarrow> py_error + pyfloat" where
  "py_truediv a b = (if b = Finite 0 then Inl ZeroDivisionError else Inr (fdiv a b))"





text \<open>
  The two error kinds of the specification. Python's \<^verbatim>\<open>TypeError\<close> and \<^verbatim>\<open>ValueError\<close>
  are its InvalidArgument; an operation on an empty collection (\<^verbatim>\<open>IndexError\<close>) or on a
  rocket of mass zero (\<^verbatim>\<open>ZeroDivisionError\<close>) is its PreconditionViolation.
\<close>

datatype spec_error = InvalidArgument | PreconditionViolation

fun error_kind :: "py_error \<Rightarrow> spec_error" where
  "error_kind TypeError = InvalidArgument"
| "error_kind ValueError = InvalidArgument"
| "error_kind IndexError = PreconditionViolation"
| "error_kind ZeroDivisionError = PreconditionViolation"

text \<open>
  A method that mutates its object either returns or raises; in both cases the object is
  left in some state. \<open>Raises e s\<close> carries the state at the moment the exception leaves
  the method.
\<close>

datatype 's outcome = Normal 's | Raises py_error 's

fun after :: "'s outcome \<Rightarrow> 's" where
  "after (Normal s) = s"
| "after (Raises e s) = s"

fun raised :: "'s outcome \<Rightarrow> py_error option" where
  "raised (Normal s) = None"
| "raised (Raises e s) = Some e"

text \<open>The values a configuration record can hold, told apart as \<^verbatim>\<open>isinstance\<close> does.\<close>

datatype pyprim = PFloat pyfloat | PInt int | PBool bool | PStr string | PNone

section \<open>Vector\<close>

text \<open>
  Modelled from the spec: the class \<^verbatim>\<open>Vector\<close> of the module \<^verbatim>\<open>vector\<close>, which is not
  among the sources. The specification describes it as an immutable 3D vector with
  addition, scalar multiplication, dot product and normalization; a vector is its three
  components.
\<close>

datatype Vector = Vector pyfloat pyfloat pyfloat

text \<open>Modelled from the spec: addition of vectors (\<^verbatim>\<open>v + w\<close>), component by component.\<close>

fun vadd :: "Vector \<Rightarrow> Vector \<Rightarrow> Vector" where
  "vadd (Vector a b c) (Vector x y z) = Vector (fadd a x) (fadd b y) (fadd c z)"

text \<open>Modelled from the spec: scalar multiplication (\<^verbatim>\<open>k * v\<close>) of each component.\<close>

fun smul :: "pyfloat \<Rightarrow> Vector \<Rightarrow> Vector" where
  "smul k (Vector x y z) = Vector (fmul k x) (fmul k y) (fmul k z)"

text \<open>
  Modelled from the spec: division of a vector by a scalar (\<^verbatim>\<open>v / k\<close>), which
  \<^verbatim>\<open>separate_active_stage\<close> and \<^verbatim>\<open>separate_srbs\<close> use. It divides each component and
  fails for the scalar zero: the specification has the separation fail with
  \<^verbatim>\<open>total_mass == 0\<close>.
\<close>

fun vdiv :: "Vector \<Rightarrow> pyfloat \<Rightarrow> py_error + Vector" where
  "vdiv (Vector x y z) k =
     (if k = Finite 0 then Inl ZeroDivisionError
      else Inr (Vector (fdiv x k) (fdiv y k) (fdiv z k)))"





section \<open>Stage\<close>

text \<open>
  The attributes of a \<^verbatim>\<open>Stage\<close> object. After a successful construction the four
  validated attributes are floats; \<^verbatim>\<open>length\<close> is whatever the configuration gave.
  \<^verbatim>\<open>throttle\<close> starts as the integer 0 and is afterwards only assigned floats; it is
  kept as a float, which multiplies and divides as the integer does.
\<close>

record Stage =
  dry_mass :: pyfloat
  fuel_mass :: pyfloat
  max_thrust_mag :: pyfloat
  max_dmdt :: pyfloat
  throttle :: pyfloat
  stage_length :: pyprim
  stage_axis :: Vector

text \<open>\<^verbatim>\<open>options.get(k) if k in options else 0.0\<close>\<close>

definition option_or_default :: "(string \<rightharpoonup> pyprim) \<Rightarrow> string \<Rightarrow> pyprim" where
  "option_or_default options k =
     (case options k of Some v \<Rightarrow> v | None \<Rightarrow> PFloat (Finite 0))"

text \<open>
  One block of the type check of \<^verbatim>\<open>Stage.__init__\<close>:
  \<^verbatim>\<open>if isinstance(v, float): if v < 0.0: raise ValueError else: raise TypeError\<close>
\<close>

definition check_attribute :: "pyprim \<Rightarrow> py_error + pyfloat" where
  "check_attribute v =
     (case v of
        PFloat f \<Rightarrow> if flt f (Finite 0) then Inl ValueError else Inr f
      | _ \<Rightarrow> Inl TypeError)"

definition Stage_init :: "(string \<rightharpoonup> pyprim) \<Rightarrow> py_error + Stage" where
  "Stage_init options =
     (let dry = option_or_default options ''dry_mass'';
          fuel = option_or_default options ''fuel_mass'';
          thrust = option_or_default options ''max_thrust_mag'';
          dmdt = option_or_default options ''max_dmdt'';
          len = option_or_default options ''length''
      in case check_attribute dry of Inl e \<Rightarrow> Inl e | Inr d \<Rightarrow>
         (case check_attribute fuel of Inl e \<Rightarrow> Inl e | Inr f \<Rightarrow>
         (case check_attribute thrust of Inl e \<Rightarrow> Inl e | Inr t \<Rightarrow>
         (case check_attribute dmdt of Inl e \<Rightarrow> Inl e | Inr m \<Rightarrow>
            Inr \<lparr>dry_mass = d, fuel_mass = f, max_thrust_mag = t, max_dmdt = m,
                 throttle = Finite 0, stage_length = len,
                 stage_axis = Vector (Finite 0) (Finite 0) (Finite 0)\<rparr>))))"

definition current_thrust :: "Stage \<Rightarrow> pyfloat" where
  "current_thrust s = fdiv (fmul (max_thrust_mag s) (throttle s)) (Finite 100)"

definition current_fuel_consumption :: "Stage \<Rightarrow> pyfloat" where
  "current_fuel_consumption s = fdiv (fmul (max_dmdt s) (throttle s)) (Finite 100)"

text \<open>
  \<^verbatim>\<open>self.fuel_mass -= self.max_dmdt*self.throttle/100*time_step\<close>: the divisor is the
  literal 100, so the division cannot raise.
\<close>

definition update_mass :: "Stage \<Rightarrow> pyfloat \<Rightarrow> Stage" where
  "update_mass s time_step =
     s\<lparr>fuel_mass :=
         fsub (fuel_mass s) (fmul (fdiv (fmul (max_dmdt s) (throttle s)) (Finite 100)) time_step)\<rparr>"

section \<open>Payload\<close>

record Payload =
  mass :: pyfloat

section \<open>Objects and arguments\<close>

text \<open>
  A \<^verbatim>\<open>Stage\<close> object is mutable and a Python list holds references to its elements, so
  stages are kept in a store: a reference is the identity of a \<^verbatim>\<open>Stage\<close> object and the
  store gives the attributes of each object. The same reference can stand in several
  slots. A \<^verbatim>\<open>Payload\<close> has no method that changes it and is kept by value.
\<close>

type_synonym ref = nat

type_synonym store = "ref \<Rightarrow> Stage"

text \<open>
  What a caller can pass to a method: a primitive value or an object of one of the
  classes. \<^verbatim>\<open>isinstance\<close> is the case distinction on the constructor.
\<close>

datatype pyval = Prim pyprim | VectorObj Vector | StageObj ref | PayloadObj Payload

abbreviation PyFloat :: "pyfloat \<Rightarrow> pyval" where
  "PyFloat f \<equiv> Prim (PFloat f)"

definition set_throttle :: "Stage \<Rightarrow> pyval \<Rightarrow> Stage outcome" where
  "set_throttle s v =
     (case v of
        Prim (PFloat t) \<Rightarrow>
          if fgt t (Finite 100) \<or> flt t (Finite 0) then Raises ValueError s
          else Normal (s\<lparr>throttle := t\<rparr>)
      | _ \<Rightarrow> Raises TypeError s)"

text \<open>The property \<^verbatim>\<open>Stage.attitude\<close> and its setter.\<close>

definition stage_attitude :: "Stage \<Rightarrow> Vector" where
  "stage_attitude s = stage_axis s"

definition set_stage_attitude :: "Stage \<Rightarrow> pyval \<Rightarrow> Stage outcome" where
  "set_stage_attitude s v =
     (case v of VectorObj a \<Rightarrow> Normal (s\<lparr>stage_axis := a\<rparr>) | _ \<Rightarrow> Raises TypeError s)"

text \<open>\<^verbatim>\<open>Payload.__init__(self, mass, length)\<close>: \<^verbatim>\<open>length\<close> is not read.\<close>

definition Payload_init :: "pyval \<Rightarrow> pyval \<Rightarrow> py_error + Payload" where
  "Payload_init m len =
     (case m of
        Prim (PFloat f) \<Rightarrow> if fgt f (Finite 0) then Inr \<lparr>mass = f\<rparr> else Inl ValueError
      | _ \<Rightarrow> Inl TypeError)"

section \<open>Rocket\<close>

text \<open>
  The attributes of a \<^verbatim>\<open>Rocket\<close> object. The lists of stages and boosters hold
  references, in the order of the Python lists. \<^verbatim>\<open>roll_rate\<close> starts as the integer 0
  and is kept as a float.
\<close>

record Rocket =
  stages :: "ref list"
  srbs :: "ref list"
  payloads :: "Payload list"
  coeff_drag :: pyfloat
  cross_sec_area :: pyfloat
  pos :: Vector
  momentum :: Vector
  axis :: Vector
  roll_rate :: pyfloat

definition up :: Vector where
  "up = Vector (Finite 0) (Finite 1) (Finite 0)"

definition zero_vector :: Vector where
  "zero_vector = Vector (Finite 0) (Finite 0) (Finite 0)"



definition add_stage :: "Rocket \<Rightarrow> pyval \<Rightarrow> Rocket outcome" where
  "add_stage r v =
     (case v of StageObj a \<Rightarrow> Normal (r\<lparr>stages := stages r @ [a]\<rparr>) | _ \<Rightarrow> Raises TypeError r)"



text \<open>
  \<^verbatim>\<open>total_mass\<close>: three loops add to one accumulator that starts at 0, the boosters
  first, then the stages, then the payloads.
\<close>

fun add_stage_masses :: "store \<Rightarrow> pyfloat \<Rightarrow> ref list \<Rightarrow> pyfloat" where
  "add_stage_masses h acc [] = acc"
| "add_stage_masses h acc (a # as) =
     add_stage_masses h (fadd acc (fadd (dry_mass (h a)) (fuel_mass (h a)))) as"

fun add_payload_masses :: "pyfloat \<Rightarrow> Payload list \<Rightarrow> pyfloat" where
  "add_payload_masses acc [] = acc"
| "add_payload_masses acc (p # ps) = add_payload_masses (fadd acc (mass p)) ps"

definition total_mass :: "store \<Rightarrow> Rocket \<Rightarrow> pyfloat" where
  "total_mass h r =
     add_payload_masses
       (add_stage_masses h (add_stage_masses h (Finite 0) (srbs r)) (stages r)) (payloads r)"

text \<open>
  The thrust properties. \<^verbatim>\<open>srb_thrust\<close> adds the boosters' thrust magnitudes to an
  accumulator that starts at 0.
\<close>

definition active_stage_thrust :: "store \<Rightarrow> Rocket \<Rightarrow> Vector" where
  "active_stage_thrust h r =
     (if length (stages r) > 0 then smul (current_thrust (h (stages r ! 0))) (axis r)
      else zero_vector)"

fun add_thrusts :: "store \<Rightarrow> pyfloat \<Rightarrow> ref list \<Rightarrow> pyfloat" where
  "add_thrusts h acc [] = acc"
| "add_thrusts h acc (a # as) = add_thrusts h (fadd acc (current_thrust (h a))) as"

definition srb_thrust :: "store \<Rightarrow> Rocket \<Rightarrow> Vector" where
  "srb_thrust h r =
     (if length (srbs r) > 0 then smul (add_thrusts h (Finite 0) (srbs r)) (axis r)
      else zero_vector)"

definition total_thrust :: "store \<Rightarrow> Rocket \<Rightarrow> Vector" where
  "total_thrust h r = vadd (active_stage_thrust h r) (srb_thrust h r)"

text \<open>
  \<^verbatim>\<open>update_total_mass\<close>: the type check, the range check, then \<^verbatim>\<open>update_mass\<close> on the
  object \<^verbatim>\<open>self.stages[0]\<close> and, in a loop, on the object of each entry of
  \<^verbatim>\<open>self.srbs\<close>. The method changes \<^verbatim>\<open>Stage\<close> objects only, so its result is the store.
\<close>

fun update_srbs :: "store \<Rightarrow> ref list \<Rightarrow> pyfloat \<Rightarrow> store" where
  "update_srbs h [] dt = h"
| "update_srbs h (a # as) dt = update_srbs (h(a := update_mass (h a) dt)) as dt"

definition update_total_mass :: "store \<Rightarrow> Rocket \<Rightarrow> pyval \<Rightarrow> store outcome" where
  "update_total_mass h r time_step =
     (case time_step of
        Prim (PFloat dt) \<Rightarrow>
          if fgt dt (Finite 0) then
            let h1 = (if length (stages r) > 0
                      then h(stages r ! 0 := update_mass (h (stages r ! 0)) dt)
                      else h);
                h2 = (if length (srbs r) > 0 then update_srbs h1 (srbs r) dt else h1)
            in Normal h2
          else Raises ValueError h
      | _ \<Rightarrow> Raises TypeError h)"

text \<open>\<^verbatim>\<open>list.pop(0)\<close> raises \<^verbatim>\<open>IndexError\<close> on the empty list.\<close>

definition pop0 :: "'a list \<Rightarrow> py_error + 'a list" where
  "pop0 xs = (case xs of [] \<Rightarrow> Inl IndexError | x # rest \<Rightarrow> Inr rest)"

text \<open>
  The two separations: the velocity is computed first, from the mass before the removal;
  then the component is removed; then the momentum is assigned. An exception of the
  division or of \<^verbatim>\<open>pop\<close> leaves the rocket as it was. No \<^verbatim>\<open>Stage\<close> object is changed.
\<close>

definition separate_active_stage :: "store \<Rightarrow> Rocket \<Rightarrow> Rocket outcome" where
  "separate_active_stage h r =
     (case vdiv (momentum r) (total_mass h r) of
        Inl e \<Rightarrow> Raises e r
      | Inr velocity \<Rightarrow>
          (case pop0 (stages r) of
             Inl e \<Rightarrow> Raises e r
           | Inr rest \<Rightarrow>
               let r1 = r\<lparr>stages := rest\<rparr>
               in Normal (r1\<lparr>momentum := smul (total_mass h r1) velocity\<rparr>)))"

definition separate_srbs :: "store \<Rightarrow> Rocket \<Rightarrow> Rocket outcome" where
  "separate_srbs h r =
     (case vdiv (momentum r) (total_mass h r) of
        Inl e \<Rightarrow> Raises e r
      | Inr velocity \<Rightarrow>
          let r1 = r\<lparr>srbs := []\<rparr>
          in Normal (r1\<lparr>momentum := smul (total_mass h r1) velocity\<rparr>))"




text \<open>\<^verbatim>\<open>adjust_throttle\<close> and \<^verbatim>\<open>ignite_srbs\<close> change \<^verbatim>\<open>Stage\<close> objects only.\<close>

definition adjust_throttle :: "store \<Rightarrow> Rocket \<Rightarrow> pyval \<Rightarrow> store outcome" where
  "adjust_throttle h r v =
     (if length (stages r) > 0 then
        (case v of
           Prim (PFloat t) \<Rightarrow>
             if fge t (Finite 0) \<and> fle t (Finite 100) then
               (case set_throttle (h (stages r ! 0)) v of
                  Normal s \<Rightarrow> Normal (h(stages r ! 0 := s))
                | Raises e s \<Rightarrow> Raises e (h(stages r ! 0 := s)))
             else Raises ValueError h
         | _ \<Rightarrow> Raises TypeError h)
      else Normal h)"



section \<open>Calls\<close>


fun with_store :: "store \<Rightarrow> Rocket outcome \<Rightarrow> (store \<times> Rocket) outcome" where
  "with_store h (Normal r) = Normal (h, r)"
| "with_store h (Raises e r) = Raises e (h, r)"

fun with_rocket :: "Rocket \<Rightarrow> store outcome \<Rightarrow> (store \<times> Rocket) outcome" where
  "with_rocket r (Normal h) = Normal (h, r)"
| "with_rocket r (Raises e h) = Raises e (h, r)"



section \<open>Example components\<close>

text \<open>
  The stage of the specification's first scenario at full throttle, a reserve stage, a
  booster of its second scenario, a store with these objects (two boosters, at the
  references 2 and 3) and a rocket made of them.
\<close>

definition example_stage :: Stage where
  "example_stage =
     \<lparr>dry_mass = Finite 100, fuel_mass = Finite 50, max_thrust_mag = Finite 1000,
      max_dmdt = Finite 5, throttle = Finite 100, stage_length = PFloat (Finite 0),
      stage_axis = zero_vector\<rparr>"

definition example_reserve :: Stage where
  "example_reserve =
     \<lparr>dry_mass = Finite 20, fuel_mass = Finite 30, max_thrust_mag = Finite 300,
      max_dmdt = Finite 2, throttle = Finite 50, stage_length = PFloat (Finite 0),
      stage_axis = zero_vector\<rparr>"

definition example_booster :: Stage where
  "example_booster =
     \<lparr>dry_mass = Finite 10, fuel_mass = Finite 5, max_thrust_mag = Finite 200,
      max_dmdt = Finite 1, throttle = Finite 100, stage_length = PFloat (Finite 0),
      stage_axis = zero_vector\<rparr>"

text \<open>A stage of dry mass 7 that carries no fuel, at the reference 4.\<close>

definition light_stage :: Stage where
  "light_stage =
     \<lparr>dry_mass = Finite 7, fuel_mass = Finite 0, max_thrust_mag = Finite 0,
      max_dmdt = Finite 0, throttle = Finite 0, stage_length = PFloat (Finite 0),
      stage_axis = zero_vector\<rparr>"

definition example_store :: store where
  "example_store =
     (\<lambda>a. if a = 1 then example_reserve
          else if a = 2 \<or> a = 3 then example_booster
          else if a = 4 then light_stage
          else example_stage)"

definition example_rocket :: Rocket where
  "example_rocket =
     \<lparr>stages = [0, 1], srbs = [2, 3],
      payloads = [\<lparr>mass = Finite 20\<rparr>], coeff_drag = Finite 1, cross_sec_area = Finite 1,
      pos = zero_vector, momentum = Vector (Finite 500) (Finite 250) (Finite 0), axis = up,
      roll_rate = Finite 0\<rparr>"

text \<open>A rocket that carries one payload and nothing else.\<close>

definition payload_rocket :: Rocket where
  "payload_rocket =
     \<lparr>stages = [], srbs = [], payloads = [\<lparr>mass = Finite 1\<rparr>], coeff_drag = Finite 1,
      cross_sec_area = Finite 1, pos = zero_vector,
      momentum = Vector (Finite 2) (Finite 0) (Finite 0), axis = up, roll_rate = Finite 0\<rparr>"

text \<open>The rocket as \<^verbatim>\<open>Rocket(Vector(0,0,0), 1.0, 1.0)\<close> constructs it.\<close>

definition new_rocket :: Rocket where
  "new_rocket =
     \<lparr>stages = [], srbs = [], payloads = [], coeff_drag = Finite 1, cross_sec_area = Finite 1,
      pos = zero_vector, momentum = zero_vector, axis = up, roll_rate = Finite 0\<rparr>"


text \<open>The new rocket after \<^verbatim>\<open>add_stage(s)\<close> was called twice with the same stage \<^verbatim>\<open>s\<close>.\<close>

definition shared_rocket :: Rocket where
  "shared_rocket = new_rocket\<lparr>stages := [0, 0]\<rparr>"

section \<open>Facts about rounding\<close>

text \<open>
  Rounding is exact on the integers below \<open>2 ^ 53\<close>; in the range of the normal doubles
  it is computed from the binade \<open>k\<close> of its argument; and it gives plus infinity from
  \<open>2 powi 1024\<close> on.
\<close>

lemma round_half_even_of_int [simp]: "round_half_even (of_int m) = m"
  by (simp add: round_half_even_def)

lemma round_half_even_0 [simp]: "round_half_even 0 = 0"
  by (simp add: round_half_even_def)


lemma two_powr_int: "(2::real) powr (real_of_int j) = 2 powi j"
  by (rule powr_real_of_int') simp_all

lemma floor_log2:
  assumes "2 powi k \<le> \<bar>x\<bar>" and "\<bar>x\<bar> < 2 powi (k + 1)"
  shows "\<lfloor>log 2 \<bar>x\<bar>\<rfloor> = k"
proof -
  have "(0::real) < 2 powi k" by simp
  with assms(1) have pos: "0 < \<bar>x\<bar>" by linarith
  have "(2::real) powr (of_int k + 1) = 2 powi (k + 1)"
    using two_powr_int [of "k + 1"] by simp
  with assms pos show ?thesis
    by (simp add: floor_log_eq_powr_iff two_powr_int)
qed

lemma ulp_exponent_normal:
  assumes "2 powi k \<le> \<bar>x\<bar>" and "\<bar>x\<bar> < 2 powi (k + 1)" and "- 1022 \<le> k"
  shows "ulp_exponent x = k - 52"
proof -
  have "(2::real) powi (- 1022) \<le> 2 powi k"
    using assms(3) by (intro power_int_increasing) simp_all
  with assms(1) have "\<not> \<bar>x\<bar> < 2 powi (- 1022)" by linarith
  then show ?thesis
    using floor_log2 [OF assms(1,2)] by (simp add: ulp_exponent_def)
qed

lemma nearest64_normal:
  assumes "2 powi k \<le> \<bar>x\<bar>" and "\<bar>x\<bar> < 2 powi (k + 1)" and "- 1022 \<le> k"
  shows "nearest64 x = of_int (round_half_even (x / 2 powi (k - 52))) * 2 powi (k - 52)"
  by (simp add: nearest64_def Let_def ulp_exponent_normal [OF assms])

lemma nearest64_subnormal:
  assumes "\<bar>x\<bar> < 2 powi (- 1022)"
  shows "nearest64 x = of_int (round_half_even (x / 2 powi (- 1074))) * 2 powi (- 1074)"
  using assms by (simp add: nearest64_def Let_def ulp_exponent_def)

lemma nearest64_0 [simp]: "nearest64 0 = 0"
  by (simp add: nearest64_def Let_def)

lemma huge_gt: "2 ^ 1000 < huge"
proof -
  have "(2::real) ^ 1000 < 2 ^ 1024"
    by (rule power_strict_increasing) simp_all
  then show ?thesis by (simp only: huge_def power_int_numeral)
qed

lemma finite_or_inf_small: "\<bar>y\<bar> \<le> 2 ^ 1000 \<Longrightarrow> finite_or_inf y = Finite y"
  using huge_gt unfolding finite_or_inf_def by (smt (verit))

lemma nearest64_of_int:
  assumes "\<bar>n\<bar> < 2 ^ 53"
  shows "nearest64 (of_int n) = of_int n"
proof (cases "n = 0")
  case True
  then show ?thesis by simp
next
  case False
  define k where "k = \<lfloor>log 2 \<bar>real_of_int n\<bar>\<rfloor>"
  have pos: "0 < \<bar>real_of_int n\<bar>" using False by simp
  have b: "2 powr (of_int k) \<le> \<bar>real_of_int n\<bar>" "\<bar>real_of_int n\<bar> < 2 powr (of_int k + 1)"
    using floor_log_eq_powr_iff [of "\<bar>real_of_int n\<bar>" 2 k] pos by (simp_all add: k_def)
  have "1 \<le> \<bar>n\<bar>" using False by linarith
  then have ge1: "1 \<le> \<bar>real_of_int n\<bar>"
    by (metis of_int_abs of_int_1_le_iff)
  have k0: "0 \<le> k"
    unfolding k_def using ge1 by simp
  have lt: "\<bar>real_of_int n\<bar> < 2 ^ 53"
    using assms by (metis of_int_abs of_int_less_numeral_power_cancel_iff)
  have "2 powr (of_int k) < (2::real) powr 53"
    using b(1) lt by simp
  then have "real_of_int k < 53"
    by (simp only: powr_less_cancel_iff) 
  then have k52: "k \<le> 52" by linarith
  have n1: "2 powi k \<le> \<bar>real_of_int n\<bar>" "\<bar>real_of_int n\<bar> < 2 powi (k + 1)"
    using b two_powr_int [of k] two_powr_int [of "k + 1"] by simp_all
  have u: "(2::real) powi (k - 52) = inverse (2 ^ nat (52 - k))"
    using k52 by (cases "k = 52") (simp_all add: power_int_def power_one_over inverse_eq_divide)
  have "real_of_int n / 2 powi (k - 52) = of_int (n * 2 ^ nat (52 - k))"
    by (simp add: u field_simps)
  then have "round_half_even (real_of_int n / 2 powi (k - 52)) = n * 2 ^ nat (52 - k)"
    by (simp only: round_half_even_of_int)
  then have "nearest64 (of_int n) = of_int (n * 2 ^ nat (52 - k)) * 2 powi (k - 52)"
    using nearest64_normal [OF n1] k0 by simp
  also have "\<dots> = of_int n"
    by (simp add: u)
  finally show ?thesis .
qed

lemma round64_of_int:
  assumes "\<bar>n\<bar> < 2 ^ 53"
  shows "round64 (of_int n) = Finite (of_int n)"
proof -
  have "\<bar>real_of_int n\<bar> < 2 ^ 53"
    using assms by (metis of_int_abs of_int_less_numeral_power_cancel_iff)
  moreover have "(2::real) ^ 53 \<le> 2 ^ 1000"
    by (rule power_increasing) simp_all
  ultimately have "\<bar>real_of_int n\<bar> \<le> 2 ^ 1000"
    by linarith
  then show ?thesis
    by (simp only: round64_def nearest64_of_int [OF assms] finite_or_inf_small)
qed

lemma round64_0 [simp]: "round64 0 = Finite 0"
  using round64_of_int [of 0] by simp

lemma round64_1 [simp]: "round64 1 = Finite 1"
  using round64_of_int [of 1] by simp

lemma round64_numeral [simp]:
  "numeral w < (9007199254740992::int) \<Longrightarrow> round64 (numeral w) = Finite (numeral w)"
  using round64_of_int [of "numeral w"] by simp

lemma round64_neg_numeral [simp]:
  "numeral w < (9007199254740992::int) \<Longrightarrow> round64 (- numeral w) = Finite (- numeral w)"
  using round64_of_int [of "- numeral w"] by simp












section \<open>Facts about the model\<close>

lemma py_truediv_100: "py_truediv a (Finite 100) = Inr (fdiv a (Finite 100))"
  by (simp add: py_truediv_def)

lemma total_mass_momentum [simp]: "total_mass h (r\<lparr>momentum := p\<rparr>) = total_mass h r"
  by (simp add: total_mass_def)

lemma update_srbs_foldl:
  "update_srbs h as dt = foldl (\<lambda>g a. g(a := update_mass (g a) dt)) h as"
  by (induction as arbitrary: h) simp_all

section \<open>Separation of the active stage\<close>




section \<open>Separation with nothing to separate\<close>

text \<open>
  C2, as the code has it. With an empty stage list \<^verbatim>\<open>separate_active_stage\<close> raises and
  leaves the rocket unchanged: \<^verbatim>\<open>pop(0)\<close> raises \<^verbatim>\<open>IndexError\<close>, unless the division by a
  total mass of zero has failed before it. \<^verbatim>\<open>separate_srbs\<close> has no such step: with an
  empty booster list it fails only when the total mass is zero, and otherwise returns,
  the components unchanged and the momentum set to \<open>M * (P / M)\<close>.
\<close>

theorem separation_of_empty:
  "(stages r = [] \<longrightarrow>
      (\<exists>e. separate_active_stage h r = Raises e r \<and> error_kind e = PreconditionViolation)) \<and>
   (srbs r = [] \<and> total_mass h r = Finite 0 \<longrightarrow>
      separate_srbs h r = Raises ZeroDivisionError r) \<and>
   (srbs r = [] \<and> total_mass h r \<noteq> Finite 0 \<longrightarrow>
      (\<exists>velocity. vdiv (momentum r) (total_mass h r) = Inr velocity \<and>
         separate_srbs h r = Normal (r\<lparr>momentum := smul (total_mass h r) velocity\<rparr>)))"
proof (intro conjI impI)
  assume "stages r = []"
  then show "\<exists>e. separate_active_stage h r = Raises e r \<and> error_kind e = PreconditionViolation"
    by (cases "momentum r")
       (auto simp: separate_active_stage_def pop0_def split: sum.splits if_splits)
next
  assume "srbs r = [] \<and> total_mass h r = Finite 0"
  then show "separate_srbs h r = Raises ZeroDivisionError r"
    by (cases "momentum r") (simp add: separate_srbs_def)
next
  assume a: "srbs r = [] \<and> total_mass h r \<noteq> Finite 0"
  then have eq: "r\<lparr>srbs := []\<rparr> = r" by simp
  show "\<exists>velocity. vdiv (momentum r) (total_mass h r) = Inr velocity \<and>
         separate_srbs h r = Normal (r\<lparr>momentum := smul (total_mass h r) velocity\<rparr>)"
    unfolding separate_srbs_def Let_def eq using a by (cases "momentum r") simp
qed

theorem separation_of_empty_witness:
  "stages payload_rocket = [] \<and> srbs payload_rocket = [] \<and>
   total_mass example_store payload_rocket = Finite 1 \<and>
   total_mass example_store new_rocket = Finite 0 \<and>
   (\<exists>e. separate_active_stage example_store payload_rocket = Raises e payload_rocket \<and>
      error_kind e = PreconditionViolation) \<and>
   separate_active_stage example_store payload_rocket = Raises IndexError payload_rocket \<and>
   separate_srbs example_store new_rocket = Raises ZeroDivisionError new_rocket \<and>
   (\<exists>velocity.
      vdiv (momentum payload_rocket) (total_mass example_store payload_rocket) = Inr velocity \<and>
      separate_srbs example_store payload_rocket =
        Normal (payload_rocket
          \<lparr>momentum := smul (total_mass example_store payload_rocket) velocity\<rparr>))"
proof -
  have p: "stages payload_rocket = []" "srbs payload_rocket = []"
    "total_mass example_store payload_rocket = Finite 1"
    by (simp_all add: payload_rocket_def total_mass_def)
  have n: "srbs new_rocket = []" "total_mass example_store new_rocket = Finite 0"
    by (simp_all add: new_rocket_def total_mass_def)
  have i: "separate_active_stage example_store payload_rocket = Raises IndexError payload_rocket"
    by (simp add: separate_active_stage_def pop0_def total_mass_def payload_rocket_def)
  have nz: "total_mass example_store payload_rocket \<noteq> Finite 0"
    by (simp add: p)
  from separation_of_empty [of payload_rocket example_store]
    separation_of_empty [of new_rocket example_store] p n nz i
  show ?thesis by simp
qed

text \<open>
  The claim C2 as written fails for \<^verbatim>\<open>separate_srbs\<close>: on the rocket that carries one
  payload and no booster it returns normally, the rocket unchanged.
\<close>

theorem separate_srbs_empty_returns:
  "srbs payload_rocket = [] \<and>
   separate_srbs example_store payload_rocket = Normal payload_rocket"
  by (simp add: separate_srbs_def total_mass_def payload_rocket_def)

section \<open>Stage construction\<close>

text \<open>What the constructor does check: the four attributes it validates.\<close>

lemma check_attribute_Inr:
  "check_attribute v = Inr f \<longleftrightarrow> v = PFloat f \<and> \<not> flt f (Finite 0)"
  by (auto simp: check_attribute_def split: pyprim.splits)

lemma check_attribute_error:
  "check_attribute v = Inl e \<Longrightarrow> error_kind e = InvalidArgument"
  by (auto simp: check_attribute_def split: pyprim.splits if_splits)

lemma stage_init_success:
  "Stage_init options = Inr s \<Longrightarrow>
     PFloat (dry_mass s) = option_or_default options ''dry_mass'' \<and>
     PFloat (fuel_mass s) = option_or_default options ''fuel_mass'' \<and>
     PFloat (max_thrust_mag s) = option_or_default options ''max_thrust_mag'' \<and>
     PFloat (max_dmdt s) = option_or_default options ''max_dmdt'' \<and>
     stage_length s = option_or_default options ''length'' \<and>
     \<not> flt (dry_mass s) (Finite 0) \<and> \<not> flt (fuel_mass s) (Finite 0) \<and>
     \<not> flt (max_thrust_mag s) (Finite 0) \<and> \<not> flt (max_dmdt s) (Finite 0) \<and>
     throttle s = Finite 0 \<and> stage_axis s = Vector (Finite 0) (Finite 0) (Finite 0)"
  by (auto simp: Stage_init_def Let_def check_attribute_Inr split: sum.splits)

lemma stage_init_failure:
  "Stage_init options = Inl e \<Longrightarrow> error_kind e = InvalidArgument"
  by (auto simp: Stage_init_def Let_def split: sum.splits dest: check_attribute_error)

lemma stage_init_validated_four:
  assumes "k \<in> {''dry_mass'', ''fuel_mass'', ''max_thrust_mag'', ''max_dmdt''}"
    and "options k = Some v"
    and "(\<forall>f. v \<noteq> PFloat f) \<or> (\<exists>f. v = PFloat f \<and> flt f (Finite 0))"
  shows "\<exists>e. Stage_init options = Inl e \<and> error_kind e = InvalidArgument"
proof (cases "Stage_init options")
  case (Inl e)
  then show ?thesis by (simp add: stage_init_failure)
next
  case (Inr s)
  from stage_init_success [OF Inr] assms show ?thesis
    by (auto simp: option_or_default_def)
qed

text \<open>
  C3 at the option \<^verbatim>\<open>length\<close>. The constructor reads \<^verbatim>\<open>length\<close> and never checks it:
  \<^verbatim>\<open>Stage({'length': -1.0})\<close> and \<^verbatim>\<open>Stage({'length': 'long'})\<close> both succeed and store
  the value, where the claim has them fail with InvalidArgument. The other four options
  are checked (\<open>stage_init_validated_four\<close>), absent options are 0.0, and a constructed
  stage has throttle 0 and the zero vector as axis (\<open>stage_init_success\<close>).
\<close>

theorem stage_init_length_unchecked:
  "Stage_init [''length'' \<mapsto> PFloat (Finite (- 1))] =
     Inr \<lparr>dry_mass = Finite 0, fuel_mass = Finite 0, max_thrust_mag = Finite 0,
          max_dmdt = Finite 0, throttle = Finite 0, stage_length = PFloat (Finite (- 1)),
          stage_axis = Vector (Finite 0) (Finite 0) (Finite 0)\<rparr> \<and>
   Stage_init [''length'' \<mapsto> PStr ''long''] =
     Inr \<lparr>dry_mass = Finite 0, fuel_mass = Finite 0, max_thrust_mag = Finite 0,
          max_dmdt = Finite 0, throttle = Finite 0, stage_length = PStr ''long'',
          stage_axis = Vector (Finite 0) (Finite 0) (Finite 0)\<rparr>"
  by (simp add: Stage_init_def option_or_default_def check_attribute_def)

section \<open>Burning fuel\<close>

lemma foldl_update_other:
  "a \<notin> set as \<Longrightarrow> foldl (\<lambda>g b. g(b := update_mass (g b) dt)) h as a = h a"
  by (induction as arbitrary: h) simp_all

lemma foldl_update_distinct:
  "distinct as \<Longrightarrow> a \<in> set as \<Longrightarrow>
     foldl (\<lambda>g b. g(b := update_mass (g b) dt)) h as a = update_mass (h a) dt"
proof (induction as arbitrary: h)
  case Nil
  then show ?case by simp
next
  case (Cons b as)
  show ?case
  proof (cases "a = b")
    case True
    with Cons.prems have notin: "a \<notin> set as" by simp
    have "foldl (\<lambda>g c. g(c := update_mass (g c) dt)) h (b # as) a =
        foldl (\<lambda>g c. g(c := update_mass (g c) dt)) (h(b := update_mass (h b) dt)) as a"
      by (simp only: foldl_Cons)
    also have "\<dots> = (h(b := update_mass (h b) dt)) a"
      using notin by (rule foldl_update_other)
    also have "\<dots> = update_mass (h a) dt"
      using True by simp
    finally show ?thesis .
  next
    case False
    with Cons show ?thesis by simp
  qed
qed

lemma update_total_mass_store:
  assumes "fgt dt (Finite 0)"
  shows "update_total_mass h r (PyFloat dt) =
           Normal (foldl (\<lambda>g a. g(a := update_mass (g a) dt)) h (take 1 (stages r) @ srbs r))"
proof (cases "stages r")
  case Nil
  then show ?thesis
    using assms by (cases "srbs r") (simp_all add: update_total_mass_def update_srbs_foldl)
next
  case (Cons a rest)
  then show ?thesis
    using assms by (cases "srbs r") (simp_all add: update_total_mass_def update_srbs_foldl)
qed

text \<open>
  C4, as the code has it. \<^verbatim>\<open>update_total_mass\<close> raises an InvalidArgument error and
  changes nothing unless its argument is a float greater than zero (\<^verbatim>\<open>TypeError\<close> for a
  value that is not a float, \<^verbatim>\<open>ValueError\<close> for a float that is not greater than zero).
  For a float \<open>dt\<close> greater than zero it returns, after one call of \<^verbatim>\<open>update_mass(dt)\<close> on
  the object \<^verbatim>\<open>stages[0]\<close>, if there is one, and then one on the object of each entry of
  the booster list, in this order. No other \<^verbatim>\<open>Stage\<close> object is changed: a reserve stage
  at an index from 1 on keeps its fuel mass when it is not the same object as
  \<^verbatim>\<open>stages[0]\<close> or as a booster. When \<^verbatim>\<open>stages[0]\<close> and the boosters are objects different
  from each other, each of them has been updated exactly once.
\<close>

theorem update_total_mass_effect:
  "((\<forall>dt. v = PyFloat dt \<longrightarrow> \<not> fgt dt (Finite 0)) \<longrightarrow>
      (\<exists>e. update_total_mass h r v = Raises e h \<and> error_kind e = InvalidArgument)) \<and>
   (fgt dt (Finite 0) \<longrightarrow>
      (\<exists>h'. update_total_mass h r (PyFloat dt) = Normal h' \<and>
         h' = foldl (\<lambda>g a. g(a := update_mass (g a) dt)) h (take 1 (stages r) @ srbs r) \<and>
         (\<forall>a. a \<notin> set (take 1 (stages r)) \<union> set (srbs r) \<longrightarrow> h' a = h a) \<and>
         (\<forall>i. 1 \<le> i \<and> i < length (stages r) \<and>
              stages r ! i \<notin> set (take 1 (stages r)) \<union> set (srbs r) \<longrightarrow>
            fuel_mass (h' (stages r ! i)) = fuel_mass (h (stages r ! i))) \<and>
         (distinct (take 1 (stages r) @ srbs r) \<longrightarrow>
            (\<forall>a. a \<in> set (take 1 (stages r)) \<union> set (srbs r) \<longrightarrow>
               h' a = update_mass (h a) dt))))"
proof (intro conjI impI)
  assume "\<forall>dt. v = PyFloat dt \<longrightarrow> \<not> fgt dt (Finite 0)"
  then show "\<exists>e. update_total_mass h r v = Raises e h \<and> error_kind e = InvalidArgument"
    by (auto simp: update_total_mass_def split: pyval.splits pyprim.splits)
next
  assume pos: "fgt dt (Finite 0)"
  let ?as = "take 1 (stages r) @ srbs r"
  let ?h' = "foldl (\<lambda>g a. g(a := update_mass (g a) dt)) h ?as"
  have res: "update_total_mass h r (PyFloat dt) = Normal ?h'"
    by (rule update_total_mass_store [OF pos])
  have other: "?h' a = h a" if "a \<notin> set (take 1 (stages r)) \<union> set (srbs r)" for a
    using that by (intro foldl_update_other) simp
  have each: "?h' a = update_mass (h a) dt"
    if "distinct ?as" "a \<in> set (take 1 (stages r)) \<union> set (srbs r)" for a
    using that by (intro foldl_update_distinct) simp_all
  show "\<exists>h'. update_total_mass h r (PyFloat dt) = Normal h' \<and>
         h' = foldl (\<lambda>g a. g(a := update_mass (g a) dt)) h (take 1 (stages r) @ srbs r) \<and>
         (\<forall>a. a \<notin> set (take 1 (stages r)) \<union> set (srbs r) \<longrightarrow> h' a = h a) \<and>
         (\<forall>i. 1 \<le> i \<and> i < length (stages r) \<and>
              stages r ! i \<notin> set (take 1 (stages r)) \<union> set (srbs r) \<longrightarrow>
            fuel_mass (h' (stages r ! i)) = fuel_mass (h (stages r ! i))) \<and>
         (distinct (take 1 (stages r) @ srbs r) \<longrightarrow>
            (\<forall>a. a \<in> set (take 1 (stages r)) \<union> set (srbs r) \<longrightarrow>
               h' a = update_mass (h a) dt))"
    using res other each by (intro exI [of _ ?h']) simp
qed

text \<open>
  On the example rocket a step of 2 seconds burns 10 of the active stage's fuel and 2 of
  each booster's; the reserve stage, whose throttle is 50, keeps its fuel. A step of 0
  seconds is refused.
\<close>

theorem update_total_mass_effect_witness:
  "(\<exists>e. update_total_mass example_store example_rocket (PyFloat (Finite 0)) =
          Raises e example_store \<and> error_kind e = InvalidArgument) \<and>
   fgt (Finite 2) (Finite 0) \<and>
   distinct (take 1 (stages example_rocket) @ srbs example_rocket) \<and>
   (\<exists>h'. update_total_mass example_store example_rocket (PyFloat (Finite 2)) = Normal h' \<and>
      h' 0 = example_stage\<lparr>fuel_mass := Finite 40\<rparr> \<and>
      h' 1 = example_reserve \<and>
      h' 2 = example_booster\<lparr>fuel_mass := Finite 3\<rparr> \<and>
      h' 3 = example_booster\<lparr>fuel_mass := Finite 3\<rparr>)"
proof -
  have a: "\<forall>dt. PyFloat (Finite 0) = PyFloat dt \<longrightarrow> \<not> fgt dt (Finite 0)"
    by (simp add: fgt_def)
  have b: "fgt (Finite 2) (Finite 0)" by (simp add: fgt_def)
  have d: "distinct (take 1 (stages example_rocket) @ srbs example_rocket)"
    by (simp add: example_rocket_def)
  have m: "0 \<in> set (take 1 (stages example_rocket)) \<union> set (srbs example_rocket)"
    "2 \<in> set (take 1 (stages example_rocket)) \<union> set (srbs example_rocket)"
    "3 \<in> set (take 1 (stages example_rocket)) \<union> set (srbs example_rocket)"
    "1 \<notin> set (take 1 (stages example_rocket)) \<union> set (srbs example_rocket)"
    by (simp_all add: example_rocket_def)
  from update_total_mass_effect [of "PyFloat (Finite 0)" example_store example_rocket "Finite 2"]
    a b d
  obtain h' where h': "update_total_mass example_store example_rocket (PyFloat (Finite 2)) =
      Normal h'"
    and e: "\<exists>e. update_total_mass example_store example_rocket (PyFloat (Finite 0)) =
          Raises e example_store \<and> error_kind e = InvalidArgument"
    and other: "\<forall>a. a \<notin> set (take 1 (stages example_rocket)) \<union> set (srbs example_rocket) \<longrightarrow>
        h' a = example_store a"
    and each: "\<forall>a. a \<in> set (take 1 (stages example_rocket)) \<union> set (srbs example_rocket) \<longrightarrow>
        h' a = update_mass (example_store a) (Finite 2)"
    by blast
  have "h' 0 = example_stage\<lparr>fuel_mass := Finite 40\<rparr>"
    using each [rule_format, OF m(1)]
    by (simp add: example_store_def update_mass_def example_stage_def fsub_def)
  moreover have "h' 1 = example_reserve"
    using other [rule_format, OF m(4)] by (simp add: example_store_def)
  moreover have "h' 2 = example_booster\<lparr>fuel_mass := Finite 3\<rparr>"
    using each [rule_format, OF m(2)]
    by (simp add: example_store_def update_mass_def example_booster_def fsub_def)
  moreover have "h' 3 = example_booster\<lparr>fuel_mass := Finite 3\<rparr>"
    using each [rule_format, OF m(3)]
    by (simp add: example_store_def update_mass_def example_booster_def fsub_def)
  ultimately show ?thesis
    using e b d h' by blast
qed

text \<open>
  The claim C4 as written fails on the rocket to which the same stage was added twice:
  the reserve stage at index 1 is the object that is the active stage, and a step of 2
  seconds takes its fuel mass from 50 to 40.
\<close>

theorem update_total_mass_shared_stage:
  "add_stage new_rocket (StageObj 0) = Normal (new_rocket\<lparr>stages := [0]\<rparr>) \<and>
   add_stage (new_rocket\<lparr>stages := [0]\<rparr>) (StageObj 0) = Normal shared_rocket \<and>
   fuel_mass (example_store (stages shared_rocket ! 1)) = Finite 50 \<and>
   (\<exists>h'. update_total_mass example_store shared_rocket (PyFloat (Finite 2)) = Normal h' \<and>
      fuel_mass (h' (stages shared_rocket ! 1)) = Finite 40)"
  by (simp add: add_stage_def new_rocket_def shared_rocket_def update_total_mass_def fgt_def
      example_store_def example_stage_def update_mass_def fsub_def)






section \<open>The throttle\<close>

text \<open>
  What \<^verbatim>\<open>set_throttle\<close> does with a number: it accepts the floats of the closed interval
  from 0 to 100 and rejects every other finite float and both infinities with
  \<^verbatim>\<open>ValueError\<close>, every value that is not a float with \<^verbatim>\<open>TypeError\<close>; a rejected call
  leaves the stage as it was.
\<close>

lemma set_throttle_cases:
  "set_throttle s (PyFloat (Finite x)) =
     (if 0 \<le> x \<and> x \<le> 100 then Normal (s\<lparr>throttle := Finite x\<rparr>) else Raises ValueError s)"
  "set_throttle s (PyFloat PosInf) = Raises ValueError s"
  "set_throttle s (PyFloat NegInf) = Raises ValueError s"
  "(\<forall>f. v \<noteq> PyFloat f) \<Longrightarrow> set_throttle s v = Raises TypeError s"
  by (auto simp: set_throttle_def fgt_def split: pyval.splits pyprim.splits)

lemma set_throttle_examples:
  "set_throttle s (PyFloat (Finite (- 0.1))) = Raises ValueError s"
  "set_throttle s (PyFloat (Finite 100.1)) = Raises ValueError s"
  "set_throttle s (PyFloat (Finite 0)) = Normal (s\<lparr>throttle := Finite 0\<rparr>)"
  "set_throttle s (PyFloat (Finite 100)) = Normal (s\<lparr>throttle := Finite 100\<rparr>)"
  by (simp_all add: set_throttle_cases)

text \<open>
  The rocket's own \<^verbatim>\<open>adjust_throttle\<close> tests \<^verbatim>\<open>throttle >= 0.0 and throttle <= 100.0\<close>
  before it calls the setter, and so rejects NaN.
\<close>

lemma adjust_throttle_rejects_nan:
  "stages r \<noteq> [] \<Longrightarrow> adjust_throttle h r (PyFloat NaN) = Raises ValueError h"
  by (simp add: adjust_throttle_def fge_def)

text \<open>
  C6 at NaN. The setter tests \<^verbatim>\<open>throttle > 100.0 or throttle < 0.0\<close>; both comparisons
  are false for NaN, so \<^verbatim>\<open>set_throttle(float('nan'))\<close> returns and the throttle is NaN,
  a value outside the interval from 0 to 100 that the claim has rejected.
\<close>

theorem set_throttle_accepts_nan:
  "set_throttle s (PyFloat NaN) = Normal (s\<lparr>throttle := NaN\<rparr>) \<and>
   \<not> (fle (Finite 0) NaN \<and> fle NaN (Finite 100))"
  by (simp add: set_throttle_def fgt_def)

section \<open>The axis\<close>



lemma after_with_store [simp]: "snd (after (with_store h out)) = after out"
  by (cases out) simp_all

lemma after_with_rocket [simp]: "snd (after (with_rocket r out)) = r"
  by (cases out) simp_all








section \<open>The attitude\<close>







section \<open>Payload construction\<close>

text \<open>
  C10. The second argument of the Payload constructor has no effect: the result of the
  construction is the same for any two values of \<^verbatim>\<open>length\<close>, and for a float mass
  greater than zero the constructed payload consists of that mass alone.
\<close>

theorem payload_init_length_ignored:
  "Payload_init m len1 = Payload_init m len2 \<and>
   (fgt f (Finite 0) \<longrightarrow> Payload_init (PyFloat f) len = Inr \<lparr>mass = f\<rparr>)"
  by (simp add: Payload_init_def)

theorem payload_init_length_ignored_witness:
  "Payload_init (PyFloat (Finite 2.5)) (PyFloat (Finite 1)) =
     Payload_init (PyFloat (Finite 2.5)) (Prim (PStr ''long'')) \<and>
   fgt (Finite 2.5) (Finite 0) \<and>
   Payload_init (PyFloat (Finite 2.5)) (Prim PNone) = Inr \<lparr>mass = Finite 2.5\<rparr>"
  using payload_init_length_ignored
    [of "PyFloat (Finite 2.5)" "PyFloat (Finite 1)" "Prim (PStr ''long'')" "Finite 2.5" "Prim PNone"]
  by (simp add: fgt_def)

text \<open>
  C9, as the code has it. The constructor raises \<^verbatim>\<open>TypeError\<close> when the mass is not a
  float and \<^verbatim>\<open>ValueError\<close> when it is a float that is not greater than zero (zero, a
  negative number, minus infinity, NaN); both are InvalidArgument. Every float greater
  than zero is stored, and plus infinity is one of them: the constructor has no check
  for finiteness.
\<close>

theorem payload_init_cases:
  "Payload_init (PyFloat (Finite x)) len =
     (if 0 < x then Inr \<lparr>mass = Finite x\<rparr> else Inl ValueError) \<and>
   Payload_init (PyFloat PosInf) len = Inr \<lparr>mass = PosInf\<rparr> \<and>
   Payload_init (PyFloat NegInf) len = Inl ValueError \<and>
   Payload_init (PyFloat NaN) len = Inl ValueError \<and>
   ((\<forall>f. m \<noteq> PyFloat f) \<longrightarrow> Payload_init m len = Inl TypeError) \<and>
   error_kind ValueError = InvalidArgument \<and> error_kind TypeError = InvalidArgument"
  by (auto simp: Payload_init_def fgt_def split: pyval.splits pyprim.splits)

theorem payload_init_cases_witness:
  "Payload_init (PyFloat (Finite 2)) (Prim PNone) = Inr \<lparr>mass = Finite 2\<rparr> \<and>
   Payload_init (PyFloat (Finite 0)) (Prim PNone) = Inl ValueError \<and>
   Payload_init (PyFloat PosInf) (Prim PNone) = Inr \<lparr>mass = PosInf\<rparr> \<and>
   Payload_init (Prim (PInt 5)) (Prim PNone) = Inl TypeError"
  using payload_init_cases [of 2 "Prim PNone" "Prim (PInt 5)"]
    payload_init_cases [of 0 "Prim PNone" "Prim (PInt 5)"]
  by simp

text \<open>
  The claim C9 as written fails at the mass \<^verbatim>\<open>float('inf')\<close>, which is not finite and
  is accepted.
\<close>

theorem payload_init_accepts_infinity:
  "Payload_init (PyFloat PosInf) (PyFloat (Finite 1)) = Inr \<lparr>mass = PosInf\<rparr>"
  by (simp add: Payload_init_def fgt_def)

end
